theory Spec2Isabelle
  imports Complex_Main "HOL-Library.Stream"
begin

section \<open>The particle fountain of cave\_tests\<close>

text \<open>
  A shallow embedding of \<^verbatim>\<open>Particle.cpp\<close> and of the simulation part of
  \<^verbatim>\<open>Application.cpp\<close> (the revision that keeps the particle pool inside
  \<^verbatim>\<open>Application\<close>). The toolkit calls (GLUT, CAVElib, OpenGL) do not touch the
  simulation state and are left out.

  Numbers: a \<^verbatim>\<open>float\<close> or \<^verbatim>\<open>double\<close> value of the source is a \<^typ>\<open>real\<close>
  here. \<^verbatim>\<open>Particle::update\<close> is modelled in binary32 arithmetic and the product in
  \<^verbatim>\<open>Application::update_time\<close> in binary64 arithmetic: the result of every
  operation is rounded to the nearest number of the format, ties to even. Only finite
  values are covered: overflow to an infinity and NaN are not part of the model. The
  draws of the random distributions, \<^verbatim>\<open>create_particle\<close> and the colour gradient
  are kept in exact arithmetic. A \<^verbatim>\<open>size_t\<close> is a \<^typ>\<open>nat\<close> below \<open>2 ^ 64\<close>.
\<close>

subsection \<open>Floating-point rounding\<close>

text \<open>
  Rounding to the nearest integer, ties to the even one; the binade \<open>e\<close> of a
  non-zero number \<open>v\<close>, the power of two with \<open>2 ^ e \<le> |v| < 2 ^ (e + 1)\<close>; the
  spacing around \<open>v\<close> of the numbers of a format with \<open>prec\<close> significant bits and
  least normal exponent \<open>emin\<close> (the subnormal spacing below \<open>2 ^ emin\<close>); and
  rounding to that format. binary32 has 24 bits and least exponent -126, binary64 has
  53 bits and least exponent -1022.
\<close>

definition round_even :: "real \<Rightarrow> int" where
  "round_even v =
     (let f = \<lfloor>v\<rfloor>; r = v - of_int f
      in if r < 1 / 2 then f else if 1 / 2 < r then f + 1 else if even f then f else f + 1)"

definition binade :: "real \<Rightarrow> int" where
  "binade v = \<lfloor>log 2 \<bar>v\<bar>\<rfloor>"

definition quantum :: "nat \<Rightarrow> int \<Rightarrow> real \<Rightarrow> real" where
  "quantum prec emin v = 2 powi (max (binade v) emin - int prec + 1)"

definition round_to :: "nat \<Rightarrow> int \<Rightarrow> real \<Rightarrow> real" where
  "round_to prec emin v =
     (if v = 0 then 0
      else quantum prec emin v * of_int (round_even (v / quantum prec emin v)))"

definition binary32 :: "real \<Rightarrow> real" where
  "binary32 v = round_to 24 (- 126) v"

definition binary64 :: "real \<Rightarrow> real" where
  "binary64 v = round_to 53 (- 1022) v"

subsection \<open>Vectors and colours\<close>

record point3 =
  x :: real
  y :: real
  z :: real

text \<open>
  Modelled from the spec: \<^verbatim>\<open>point3\<close>, its \<^verbatim>\<open>operator+\<close> and its
  \<^verbatim>\<open>operator*\<close> with a scalar on the left are declared in a header that is not
  among the sources. Section 4.1 of the specification reads the update rule as vector
  arithmetic, so both act on each coordinate; the coordinates are \<^verbatim>\<open>float\<close>s, so
  each sum and each product is rounded to binary32.
\<close>

definition point3_plus :: "point3 \<Rightarrow> point3 \<Rightarrow> point3" where
  "point3_plus u v =
     \<lparr>x = binary32 (x u + x v), y = binary32 (y u + y v), z = binary32 (z u + z v)\<rparr>"

definition point3_times :: "real \<Rightarrow> point3 \<Rightarrow> point3" where
  "point3_times k v =
     \<lparr>x = binary32 (k * x v), y = binary32 (k * y v), z = binary32 (k * z v)\<rparr>"

text \<open>
  \<^verbatim>\<open>color4\<close> is declared in the same missing header; the source only shows that it
  is built from four numbers. The field names are ours.
\<close>

record color4 =
  red :: real
  green :: real
  blue :: real
  alpha :: real

text \<open>
  Modelled from the spec: \<^verbatim>\<open>color_grad\<close> is not among the sources. Section 4.1
  describes the colour as a linear interpolation between two colours, clamped by the
  range of the interpolation factor: the factor is brought into \<open>[0, 1]\<close> and every
  channel is interpolated linearly.
\<close>

definition clamp_factor :: "real \<Rightarrow> real" where
  "clamp_factor t = (if t < 0 then 0 else if 1 < t then 1 else t)"

definition color_grad :: "color4 \<Rightarrow> color4 \<Rightarrow> real \<Rightarrow> color4" where
  "color_grad c0 c1 t =
     (let s = clamp_factor t in
      \<lparr>red = red c0 + s * (red c1 - red c0),
       green = green c0 + s * (green c1 - green c0),
       blue = blue c0 + s * (blue c1 - blue c0),
       alpha = alpha c0 + s * (alpha c1 - alpha c0)\<rparr>)"

subsection \<open>Navigation state\<close>

text \<open>
  The type of the member \<^verbatim>\<open>state_\<close> is declared in \<^verbatim>\<open>Application.h\<close>, which is not among
  the sources; these are the fields that \<^verbatim>\<open>Application.cpp\<close> reads and writes.
\<close>

record state_t =
  position :: point3
  rotation_y :: real
  time_delta :: real
  reset_scene :: bool
  particles_to_create :: nat

subsection \<open>Particle.cpp\<close>

record particle =
  life :: real
  position :: point3
  direction :: point3

definition gravity :: point3 where
  "gravity = \<lparr>x = 0, y = - 1, z = 0\<rparr>"

definition cold :: color4 where
  "cold = \<lparr>red = 0, green = 73 / 100, blue = 1, alpha = 1\<rparr>"

definition hot :: color4 where
  "hot = \<lparr>red = 8 / 10, green = 0, blue = 0, alpha = 1\<rparr>"

definition default_life :: real where
  "default_life = 10"

text \<open>The literal \<^verbatim>\<open>0.2f\<close> is the binary32 number nearest to 0.2.\<close>

definition slowdown_per_second :: real where
  "slowdown_per_second = binary32 (2 / 10)"

definition Particle :: "point3 \<Rightarrow> point3 \<Rightarrow> particle" where
  "Particle pos dir = \<lparr>life = default_life, position = pos, direction = dir\<rparr>"

definition get_color :: "particle \<Rightarrow> color4" where
  "get_color p = color_grad cold hot (y (direction p) / 2 + 1)"

text \<open>
  \<^verbatim>\<open>Particle::update(float time_delta)\<close>: the argument is converted to the
  parameter's type, and every \<^verbatim>\<open>float\<close> operation of the three statements is
  rounded on its own (no wider intermediate results, no fused multiply-add).
\<close>

definition Particle_update :: "particle \<Rightarrow> real \<Rightarrow> particle" where
  "Particle_update p time_delta' =
     (let dt = binary32 time_delta';
          pos' = point3_plus (position p) (point3_times dt (direction p));
          dir' = point3_plus
                   (point3_times (binary32 (1 - binary32 (dt * slowdown_per_second)))
                      (direction p))
                   (point3_times dt gravity)
      in \<lparr>life = binary32 (life p - dt), position = pos', direction = dir'\<rparr>)"

text \<open>A particle whose seven numbers are binary32 numbers.\<close>

definition float_particle :: "particle \<Rightarrow> bool" where
  "float_particle p =
     (binary32 (life p) = life p \<and>
      binary32 (x (position p)) = x (position p) \<and>
      binary32 (y (position p)) = y (position p) \<and>
      binary32 (z (position p)) = z (position p) \<and>
      binary32 (x (direction p)) = x (direction p) \<and>
      binary32 (y (direction p)) = y (direction p) \<and>
      binary32 (z (direction p)) = z (direction p))"

text \<open>
  Modelled from the spec: \<^verbatim>\<open>Particle::dead\<close> is declared in \<^verbatim>\<open>Particle.h\<close>,
  which is not among the sources. Section 4.1: a particle is dead iff its life is at
  most zero.
\<close>

definition dead :: "particle \<Rightarrow> bool" where
  "dead p = (life p \<le> 0)"

subsection \<open>Random numbers\<close>

text \<open>
  The engine behind \<^verbatim>\<open>generator_\<close> belongs to the standard library. It is
  modelled by the sequence of canonical samples it is going to deliver, each meant to
  lie in the unit interval; drawing consumes the head of the sequence.
  \<^verbatim>\<open>std::uniform_real_distribution<float>(a, b)\<close> maps a canonical sample \<open>u\<close> to
  \<open>a + (b - a) * u\<close>.
\<close>

type_synonym generator = "real stream"

datatype uniform_real_distribution = Uniform_real real real

fun draw :: "uniform_real_distribution \<Rightarrow> generator \<Rightarrow> real \<times> generator" where
  "draw (Uniform_real lo hi) gen = (lo + (hi - lo) * shd gen, stl gen)"

subsection \<open>Application.cpp\<close>

definition particles_per_second :: nat where
  "particles_per_second = 400"

definition default_position :: point3 where
  "default_position = \<lparr>x = 0, y = 0, z = - 5\<rparr>"

definition create_particle ::
  "uniform_real_distribution \<Rightarrow> uniform_real_distribution \<Rightarrow> generator
    \<Rightarrow> particle \<times> generator" where
  "create_particle d_position d_direction gen0 =
     (let (px, gen1) = draw d_position gen0;
          (py, gen2) = draw d_position gen1;
          (pz, gen3) = draw d_position gen2;
          (dx, gen4) = draw d_direction gen3;
          (dy, gen5) = draw d_direction gen4;
          (dz, gen6) = draw d_direction gen5
      in (Particle \<lparr>x = px, y = py, z = pz\<rparr> \<lparr>x = dx, y = dy * 2 + 2, z = dz\<rparr>, gen6))"

text \<open>
  The data members of \<^verbatim>\<open>Application\<close> that the simulation uses, without the
  underscore that ends their names in the source (\<^verbatim>\<open>particles_\<close>,
  \<^verbatim>\<open>state_\<close>, ...).
\<close>

record application =
  particles :: "particle list"
  state :: state_t
  last_time :: real
  generator :: generator
  distribution_position :: uniform_real_distribution
  distribution_direction :: uniform_real_distribution

text \<open>
  The constructor fixes the two distributions and the clock sample. The initial
  \<^verbatim>\<open>state_\<close> comes from the member initialisers of the missing header and the
  engine is seeded later, so both are arguments here.
\<close>

definition Application :: "state_t \<Rightarrow> generator \<Rightarrow> application" where
  "Application st gen =
     \<lparr>particles = [], state = st, last_time = 0, generator = gen,
      distribution_position = Uniform_real 0 1,
      distribution_direction = Uniform_real (- 1) 1\<rparr>"

definition Application_reset :: "bool \<Rightarrow> application \<Rightarrow> application" where
  "Application_reset v app =
     (let st = (state app)\<lparr>reset_scene := v\<rparr>;
          st' = (if v then st\<lparr>state_t.position := default_position, rotation_y := 0\<rparr>
                 else st)
      in app\<lparr>state := st'\<rparr>)"

text \<open>
  \<^verbatim>\<open>static_cast<size_t>\<close> of a floating value drops the fractional part; the
  behaviour is undefined (\<open>None\<close>) when the truncated value is not a \<^verbatim>\<open>size_t\<close>.
\<close>

definition static_cast_size_t :: "real \<Rightarrow> nat option" where
  "static_cast_size_t v =
     (let t = (if 0 \<le> v then \<lfloor>v\<rfloor> else \<lceil>v\<rceil>)
      in if 0 \<le> t \<and> t < 2 ^ 64 then Some (nat t) else None)"

text \<open>
  \<^verbatim>\<open>Application::update_time(double current_time)\<close>. The type of
  \<^verbatim>\<open>state_.time_delta\<close> is in the header that is not among the sources: the
  difference of the two clock samples, a \<^verbatim>\<open>double\<close>, is taken as stored as it is.
  The product of the \<^verbatim>\<open>size_t\<close> 400 with it is then a \<^verbatim>\<open>double\<close> product,
  rounded to binary64 before the conversion drops its fractional part.
\<close>

definition update_time :: "real \<Rightarrow> application \<Rightarrow> application option" where
  "update_time current_time app =
     (let dt = current_time - last_time app in
      case static_cast_size_t (binary64 (real particles_per_second * dt)) of
        None \<Rightarrow> None
      | Some n \<Rightarrow>
          Some (app\<lparr>state := (state app)\<lparr>time_delta := dt, particles_to_create := n\<rparr>,
                    last_time := current_time\<rparr>))"

text \<open>The spawning loop of \<^verbatim>\<open>Application::update\<close>: one \<^verbatim>\<open>emplace_back\<close> per round.\<close>

fun spawn :: "nat \<Rightarrow> application \<Rightarrow> application" where
  "spawn 0 app = app"
| "spawn (Suc n) app =
     (let (p, gen) = create_particle (distribution_position app)
                       (distribution_direction app) (generator app)
      in spawn n (app\<lparr>particles := particles app @ [p], generator := gen\<rparr>))"

text \<open>
  \<^verbatim>\<open>Application::update\<close> up to the end of the spawning loop, and the whole of it:
  clear on reset, spawn, update every particle, erase the dead ones
  (\<^verbatim>\<open>erase\<close> of \<^verbatim>\<open>remove_if\<close> keeps the others in order), lower the flag.
\<close>

definition clear_and_spawn :: "application \<Rightarrow> application" where
  "clear_and_spawn app =
     (let app1 = (if reset_scene (state app) then app\<lparr>particles := []\<rparr> else app)
      in spawn (particles_to_create (state app1)) app1)"

definition Application_update :: "application \<Rightarrow> application" where
  "Application_update app =
     (let app2 = clear_and_spawn app;
          app3 = app2\<lparr>particles :=
                   map (\<lambda>p. Particle_update p (time_delta (state app2))) (particles app2)\<rparr>;
          app4 = app3\<lparr>particles := filter (\<lambda>p. \<not> dead p) (particles app3)\<rparr>
      in Application_reset False app4)"

text \<open>The simulation part of \<^verbatim>\<open>render_glut\<close>: sample the clock, then update.\<close>

definition render_glut :: "real \<Rightarrow> application \<Rightarrow> application option" where
  "render_glut current_time app = map_option Application_update (update_time current_time app)"

text \<open>The ranges that section 4.2 of the specification gives for a new particle.\<close>

definition fresh_in_range :: "particle \<Rightarrow> bool" where
  "fresh_in_range p =
     (life p = 10 \<and>
      0 \<le> x (position p) \<and> x (position p) \<le> 1 \<and>
      0 \<le> y (position p) \<and> y (position p) \<le> 1 \<and>
      0 \<le> z (position p) \<and> z (position p) \<le> 1 \<and>
      - 1 \<le> x (direction p) \<and> x (direction p) \<le> 1 \<and>
      0 \<le> y (direction p) \<and> y (direction p) \<le> 4 \<and>
      - 1 \<le> z (direction p) \<and> z (direction p) \<le> 1)"

subsection \<open>Sample values\<close>

text \<open>Concrete particles, states and applications on which the theorems are run.\<close>

definition origin :: point3 where
  "origin = \<lparr>x = 0, y = 0, z = 0\<rparr>"

definition sample_state :: "real \<Rightarrow> bool \<Rightarrow> nat \<Rightarrow> state_t" where
  "sample_state dt r n =
     \<lparr>state_t.position = \<lparr>x = 1, y = 2, z = 3\<rparr>, rotation_y = 1 / 2, time_delta = dt,
      reset_scene = r, particles_to_create = n\<rparr>"

definition sample_app :: "particle list \<Rightarrow> state_t \<Rightarrow> application" where
  "sample_app ps st = (Application st (sconst (1 / 2)))\<lparr>particles := ps\<rparr>"

definition sample_particle :: "real \<Rightarrow> particle" where
  "sample_particle v = \<lparr>life = 1, position = origin, direction = \<lparr>x = 0, y = v, z = 0\<rparr>\<rparr>"

section \<open>Properties\<close>

subsection \<open>Rounding\<close>

lemma binade_eqI:
  assumes "2 powi e \<le> \<bar>v\<bar>" and "\<bar>v\<bar> < 2 powi (e + 1)"
  shows "binade v = e"
proof -
  have pos: "0 < \<bar>v\<bar>"
    using assms(1) by (smt (verit) zero_less_power_int)
  have a: "(2::real) powr real_of_int e = 2 powi e"
    by (rule powr_real_of_int') simp_all
  have b: "(2::real) powr real_of_int (e + 1) = 2 powi (e + 1)"
    by (rule powr_real_of_int') simp_all
  have "\<lfloor>log 2 \<bar>v\<bar>\<rfloor> = e \<longleftrightarrow>
          2 powr real_of_int e \<le> \<bar>v\<bar> \<and> \<bar>v\<bar> < 2 powr real_of_int (e + 1)"
    using pos by (rule floor_log_eq_powr_iff) simp
  then show ?thesis
    unfolding binade_def using assms by (simp only: a b simp_thms)
qed

text \<open>How to compute a rounding: name the binade, then the rest is arithmetic.\<close>

lemma binary32_eval:
  assumes "2 powi e \<le> \<bar>v\<bar>" and "\<bar>v\<bar> < 2 powi (e + 1)" and "- 126 \<le> e"
  shows "binary32 v = 2 powi (e - 23) * of_int (round_even (v / 2 powi (e - 23)))"
proof -
  have "binade v = e"
    using assms(1,2) by (rule binade_eqI)
  moreover have "v \<noteq> 0"
    using assms(1) by (smt (verit) zero_less_power_int)
  ultimately show ?thesis
    using assms(3) by (simp add: binary32_def round_to_def quantum_def max_def)
qed

lemma binary64_eval:
  assumes "2 powi e \<le> \<bar>v\<bar>" and "\<bar>v\<bar> < 2 powi (e + 1)" and "- 1022 \<le> e"
  shows "binary64 v = 2 powi (e - 52) * of_int (round_even (v / 2 powi (e - 52)))"
proof -
  have "binade v = e"
    using assms(1,2) by (rule binade_eqI)
  moreover have "v \<noteq> 0"
    using assms(1) by (smt (verit) zero_less_power_int)
  ultimately show ?thesis
    using assms(3) by (simp add: binary64_def round_to_def quantum_def max_def)
qed

lemma round_even_close: "\<bar>of_int (round_even v) - v\<bar> \<le> 1 / 2"
  unfolding round_even_def Let_def by (auto; linarith)

lemma round_even_nonneg: "0 \<le> v \<Longrightarrow> 0 \<le> round_even v"
  unfolding round_even_def Let_def by (auto; linarith)

lemma quantum_pos: "0 < quantum prec emin v"
  by (simp add: quantum_def)

lemma round_to_close: "\<bar>round_to prec emin v - v\<bar> \<le> quantum prec emin v / 2"
proof (cases "v = 0")
  case True
  then show ?thesis
    using quantum_pos [of prec emin v] by (simp add: round_to_def)
next
  case False
  let ?q = "quantum prec emin v"
  have q: "0 < ?q"
    by (rule quantum_pos)
  have "\<bar>of_int (round_even (v / ?q)) - v / ?q\<bar> \<le> 1 / 2"
    by (rule round_even_close)
  then have "?q * \<bar>of_int (round_even (v / ?q)) - v / ?q\<bar> \<le> ?q * (1 / 2)"
    using q by (intro mult_left_mono) simp_all
  moreover have "?q * \<bar>of_int (round_even (v / ?q)) - v / ?q\<bar> =
                 \<bar>?q * (of_int (round_even (v / ?q)) - v / ?q)\<bar>"
    using q by (simp add: abs_mult)
  moreover have "?q * (of_int (round_even (v / ?q)) - v / ?q) =
                 ?q * of_int (round_even (v / ?q)) - v"
    using q by (simp add: right_diff_distrib)
  ultimately show ?thesis
    using False by (simp add: round_to_def)
qed

lemma round_to_nonneg: "0 \<le> v \<Longrightarrow> 0 \<le> round_to prec emin v"
  using quantum_pos [of prec emin v] round_even_nonneg [of "v / quantum prec emin v"]
  by (simp add: round_to_def)

lemma binary32_0: "binary32 0 = 0"
  by (simp add: binary32_def round_to_def)

lemma binary32_1: "binary32 1 = 1"
  by (subst binary32_eval [where e = 0]) (simp_all add: round_even_def)

lemma binary32_5: "binary32 5 = 5"
  by (subst binary32_eval [where e = 2]) (simp_all add: round_even_def)

lemma binary32_6: "binary32 6 = 6"
  by (subst binary32_eval [where e = 2]) (simp_all add: round_even_def)

lemma binary32_10: "binary32 10 = 10"
  by (subst binary32_eval [where e = 3]) (simp_all add: round_even_def)

lemma binary32_minus_1: "binary32 (- 1) = - 1"
  by (subst binary32_eval [where e = 0]) (simp_all add: round_even_def)

lemma binary32_minus_5: "binary32 (- 5) = - 5"
  by (subst binary32_eval [where e = 2]) (simp_all add: round_even_def)

lemmas binary32_small =
  binary32_0 binary32_1 binary32_5 binary32_6 binary32_10 binary32_minus_1 binary32_minus_5

lemma slowdown_per_second_value: "slowdown_per_second = 13421773 / 2 ^ 26"
  unfolding slowdown_per_second_def
  by (subst binary32_eval [where e = "- 3"]) (simp_all add: round_even_def)

text \<open>
  The \<^verbatim>\<open>float\<close> nearest to 0.1, which is \<open>13421773 / 2 ^ 27\<close>, and the
  \<^verbatim>\<open>float\<close> \<open>2 ^ -30\<close>, far below the spacing \<open>2 ^ -20\<close> of the
  \<^verbatim>\<open>float\<close>s next to 10; then 10 minus each of them, as one fraction.
\<close>

lemma binary32_tenth: "binary32 (13421773 / 134217728) = 13421773 / 134217728"
  by (subst binary32_eval [where e = "- 4"]) (simp_all add: round_even_def)

lemma binary32_tiny: "binary32 (1 / 1073741824) = 1 / 1073741824"
  by (subst binary32_eval [where e = "- 30"]) (simp_all add: round_even_def)

lemma binary32_10_minus_tenth: "binary32 (1328755507 / 134217728) = 5190451 / 524288"
  by (subst binary32_eval [where e = 3]) (simp_all add: round_even_def)

lemma binary32_10_minus_tiny: "binary32 (10737418239 / 1073741824) = 10"
  by (subst binary32_eval [where e = 3]) (simp_all add: round_even_def)

subsection \<open>Particles\<close>

text \<open>
  Claim C1, as stated, says that \<^verbatim>\<open>Particle::update(dt)\<close> lowers the life by
  exactly \<open>dt\<close>. It does not: the difference is rounded to a \<^verbatim>\<open>float\<close>. With
  life 10 and the \<^verbatim>\<open>float\<close> nearest to 0.1 as \<open>dt\<close> the new life is
  \<open>5190451 / 2 ^ 19\<close>, so the life has gone down by \<open>52429 / 2 ^ 19\<close>, which is not
  \<open>dt\<close>; with \<open>dt = 2 ^ -30\<close> the life stays 10.
\<close>

theorem Particle_update_life_counterexample:
  "life (Particle_update (Particle origin origin) (13421773 / 2 ^ 27)) = 5190451 / 2 ^ 19 \<and>
   life (Particle origin origin) -
     life (Particle_update (Particle origin origin) (13421773 / 2 ^ 27)) \<noteq> 13421773 / 2 ^ 27 \<and>
   life (Particle_update (Particle origin origin) (1 / 2 ^ 30)) = life (Particle origin origin)"
  by (simp add: Particle_update_def Particle_def default_life_def Let_def
      binary32_tenth binary32_tiny binary32_10_minus_tenth binary32_10_minus_tiny)

text \<open>
  Claim C1, amended. For every particle and every \<open>dt\<close> (a \<^verbatim>\<open>float\<close> \<open>d\<close> once
  passed), \<^verbatim>\<open>Particle::update\<close> sets every coordinate of the position to
  \<open>fl (position + fl (d * direction))\<close>, every coordinate of the direction to
  \<open>fl (fl (fl (1 - fl (d * 0.2f)) * direction) + fl (d * gravity))\<close> with gravity
  \<open>(0, -1, 0)\<close>, and the life to \<open>fl (life - d)\<close>, where \<open>fl\<close> rounds to the
  nearest binary32 number. The new life is within half the binary32 spacing of
  \<open>life - d\<close>, and it is \<open>life - d\<close> exactly when that number is a binary32
  number. With \<open>dt = 0\<close> a particle made of binary32 numbers is unchanged.
\<close>

theorem Particle_update_rounded:
  "x (position (Particle_update p dt)) =
     binary32 (x (position p) + binary32 (binary32 dt * x (direction p))) \<and>
   y (position (Particle_update p dt)) =
     binary32 (y (position p) + binary32 (binary32 dt * y (direction p))) \<and>
   z (position (Particle_update p dt)) =
     binary32 (z (position p) + binary32 (binary32 dt * z (direction p))) \<and>
   x (direction (Particle_update p dt)) =
     binary32 (binary32 (binary32 (1 - binary32 (binary32 dt * (13421773 / 2 ^ 26))) *
                 x (direction p)) + binary32 (binary32 dt * 0)) \<and>
   y (direction (Particle_update p dt)) =
     binary32 (binary32 (binary32 (1 - binary32 (binary32 dt * (13421773 / 2 ^ 26))) *
                 y (direction p)) + binary32 (binary32 dt * (- 1))) \<and>
   z (direction (Particle_update p dt)) =
     binary32 (binary32 (binary32 (1 - binary32 (binary32 dt * (13421773 / 2 ^ 26))) *
                 z (direction p)) + binary32 (binary32 dt * 0)) \<and>
   life (Particle_update p dt) = binary32 (life p - binary32 dt) \<and>
   \<bar>life (Particle_update p dt) - (life p - binary32 dt)\<bar> \<le>
     quantum 24 (- 126) (life p - binary32 dt) / 2 \<and>
   (binary32 (life p - binary32 dt) = life p - binary32 dt \<longrightarrow>
      life p - life (Particle_update p dt) = binary32 dt) \<and>
   (float_particle p \<longrightarrow> Particle_update p 0 = p)"
proof -
  have close: "\<bar>binary32 (life p - binary32 dt) - (life p - binary32 dt)\<bar> \<le>
                 quantum 24 (- 126) (life p - binary32 dt) / 2"
    unfolding binary32_def by (rule round_to_close)
  have still: "Particle_update p 0 = p" if "float_particle p"
    using that
    by (simp add: Particle_update_def point3_plus_def point3_times_def float_particle_def
        binary32_0 binary32_1 Let_def)
  show ?thesis
    using close still
    by (simp add: Particle_update_def point3_plus_def point3_times_def gravity_def
        slowdown_per_second_value Let_def)
qed

theorem Particle_update_rounded_witness:
  "binary32 (life (Particle origin origin) - binary32 5) =
     life (Particle origin origin) - binary32 5 \<and>
   life (Particle origin origin) - life (Particle_update (Particle origin origin) 5) = 5 \<and>
   float_particle (Particle origin origin) \<and>
   Particle_update (Particle origin origin) 0 = Particle origin origin"
proof -
  have f: "float_particle (Particle origin origin)"
    by (simp add: float_particle_def Particle_def origin_def default_life_def binary32_small)
  have e: "binary32 (life (Particle origin origin) - binary32 5) =
             life (Particle origin origin) - binary32 5"
    by (simp add: Particle_def default_life_def binary32_small)
  from Particle_update_rounded [of "Particle origin origin" 5] e
  have "life (Particle origin origin) - life (Particle_update (Particle origin origin) 5) =
          binary32 5"
    by blast
  moreover from Particle_update_rounded [of "Particle origin origin" 0] f
  have "Particle_update (Particle origin origin) 0 = Particle origin origin"
    by blast
  ultimately show ?thesis
    using f e by (simp add: binary32_small)
qed

text \<open>
  Claim C7. \<^verbatim>\<open>Particle(position, direction)\<close> stores the two vectors as given and
  sets the life to 10.
\<close>

theorem Particle_life:
  "life (Particle pos dir) = 10 \<and> position (Particle pos dir) = pos \<and>
   direction (Particle pos dir) = dir"
  by (simp add: Particle_def default_life_def)

subsection \<open>The spawning loop\<close>

lemma spawn_keeps:
  "state (spawn n app) = state app \<and> last_time (spawn n app) = last_time app \<and>
   distribution_position (spawn n app) = distribution_position app \<and>
   distribution_direction (spawn n app) = distribution_direction app"
  by (induction n arbitrary: app) (simp_all split: prod.splits)

lemma length_spawn: "length (particles (spawn n app)) = length (particles app) + n"
  by (induction n arbitrary: app) (simp_all split: prod.splits)

lemma take_spawn: "take (length (particles app)) (particles (spawn n app)) = particles app"
proof (induction n arbitrary: app)
  case 0
  show ?case by simp
next
  case (Suc n)
  obtain p gen where c:
    "create_particle (distribution_position app) (distribution_direction app)
       (generator app) = (p, gen)"
    by (cases "create_particle (distribution_position app) (distribution_direction app)
       (generator app)")
  let ?app' = "app\<lparr>particles := particles app @ [p], generator := gen\<rparr>"
  let ?k = "length (particles app)"
  have "take (length (particles ?app')) (particles (spawn n ?app')) = particles ?app'"
    by (rule Suc.IH)
  then have "take (Suc ?k) (particles (spawn n ?app')) = particles app @ [p]"
    by simp
  then have "take ?k (take (Suc ?k) (particles (spawn n ?app'))) =
             take ?k (particles app @ [p])"
    by (simp only:)
  then have "take ?k (particles (spawn n ?app')) = particles app"
    by simp
  with c show ?case by simp
qed

text \<open>
  Claim C5. Spawning \<open>n\<close> particles makes the pool longer by exactly \<open>n\<close> and keeps
  the particles that were there, before any particle is updated or erased; in a frame
  update the pool after the spawning loop has \<^verbatim>\<open>particles_to_create\<close> particles
  more than after the optional clearing.
\<close>

theorem spawn_size:
  "length (particles (spawn n app)) = length (particles app) + n \<and>
   take (length (particles app)) (particles (spawn n app)) = particles app \<and>
   length (particles (clear_and_spawn app)) =
     (if reset_scene (state app) then 0 else length (particles app)) +
     particles_to_create (state app)"
  by (simp add: length_spawn take_spawn clear_and_spawn_def)

subsection \<open>The clock\<close>

lemma static_cast_size_t_floor:
  "0 \<le> v \<Longrightarrow> v < 2 ^ 64 \<Longrightarrow> static_cast_size_t v = Some (nat \<lfloor>v\<rfloor>)"
  unfolding static_cast_size_t_def Let_def
  by (simp add: floor_less_iff)





lemma binary64_400000: "binary64 400000 = 400000"
  by (subst binary64_eval [where e = 18]) (simp_all add: round_even_def)




text \<open>
  Claim C8. The constructor sets the last clock sample to 0, so the first call of
  \<^verbatim>\<open>update_time\<close> takes the whole clock value as the time delta, and the frame
  update that follows works with that delta as it is. The clock value is not negative
  and the rounded particle count is assumed to fit a \<^verbatim>\<open>size_t\<close> (otherwise the
  conversion is undefined).
\<close>

theorem first_tick_delta:
  assumes "0 \<le> current_time" and "binary64 (400 * current_time) < 2 ^ 64"
  shows "map_option (\<lambda>a. (time_delta (state a), last_time a))
           (update_time current_time (Application st gen)) =
           Some (current_time, current_time) \<and>
         map_option (\<lambda>a. time_delta (state a))
           (render_glut current_time (Application st gen)) = Some current_time"
proof -
  have "0 \<le> 400 * current_time"
    using assms(1) by simp
  then have "0 \<le> binary64 (400 * current_time)"
    unfolding binary64_def by (rule round_to_nonneg)
  then have "static_cast_size_t (binary64 (real particles_per_second * current_time)) =
          Some (nat \<lfloor>binary64 (400 * current_time)\<rfloor>)"
    using assms(2) by (simp add: static_cast_size_t_floor particles_per_second_def)
  then show ?thesis
    by (simp add: update_time_def render_glut_def Application_def Let_def
        Application_update_def Application_reset_def clear_and_spawn_def spawn_keeps)
qed

theorem first_tick_delta_witness:
  "map_option (\<lambda>a. (time_delta (state a), last_time a))
     (update_time 1000 (Application (sample_state 0 False 0) (sconst (1 / 2)))) =
     Some (1000, 1000)"
  using first_tick_delta [of 1000 "sample_state 0 False 0" "sconst (1 / 2)"]
  by (simp add: binary64_400000)

subsection \<open>The frame update\<close>

text \<open>
  Claim C3. After a frame update (spawn, update every particle, erase) the pool is
  the list of updated particles without the dead ones; no particle whose life is at
  most zero is left in it.
\<close>

theorem update_prunes_dead:
  "particles (Application_update app) =
     filter (\<lambda>p. \<not> dead p)
       (map (\<lambda>p. Particle_update p (time_delta (state app)))
          (particles (clear_and_spawn app))) \<and>
   (\<forall>p \<in> set (particles (Application_update app)). \<not> life p \<le> 0)"
  by (simp add: Application_update_def Application_reset_def Let_def clear_and_spawn_def
      spawn_keeps dead_def)

theorem update_prunes_dead_witness:
  "particles (Application_update (sample_app [Particle origin origin] (sample_state 5 False 0))) =
     [\<lparr>life = 5, position = origin, direction = \<lparr>x = 0, y = - 5, z = 0\<rparr>\<rparr>] \<and>
   \<not> life \<lparr>life = 5, position = origin, direction = \<lparr>x = 0, y = - 5, z = 0\<rparr>\<rparr> \<le> 0 \<and>
   particles (Application_update
      (sample_app [\<lparr>life = 5, position = origin, direction = \<lparr>x = 0, y = - 5, z = 0\<rparr>\<rparr>]
         (sample_state 6 False 0))) = []"
  using update_prunes_dead [of "sample_app [Particle origin origin] (sample_state 5 False 0)"]
  by (simp add: sample_app_def sample_state_def Application_def Application_update_def
      clear_and_spawn_def Application_reset_def Particle_update_def Particle_def
      point3_plus_def point3_times_def gravity_def dead_def
      origin_def default_life_def Let_def binary32_small)

text \<open>
  Claim C4. A frame update with the reset flag set does not depend on the particles
  that were in the pool: whatever the pool held, the result is the one for the empty
  pool, it holds at most \<^verbatim>\<open>particles_to_create\<close> particles (the new ones), and
  none when nothing is spawned.
\<close>

theorem reset_clears_pool:
  assumes "reset_scene (state app)"
  shows "Application_update (app\<lparr>particles := ps\<rparr>) =
           Application_update (app\<lparr>particles := []\<rparr>) \<and>
         length (particles (Application_update (app\<lparr>particles := ps\<rparr>))) \<le>
           particles_to_create (state app) \<and>
         (particles_to_create (state app) = 0 \<longrightarrow>
           particles (Application_update (app\<lparr>particles := ps\<rparr>)) = [])"
proof -
  have e: "clear_and_spawn (app\<lparr>particles := qs\<rparr>) =
             spawn (particles_to_create (state app)) (app\<lparr>particles := []\<rparr>)" for qs
    using assms by (simp add: clear_and_spawn_def)
  have 1: "Application_update (app\<lparr>particles := ps\<rparr>) =
             Application_update (app\<lparr>particles := []\<rparr>)"
    by (simp add: Application_update_def e)
  have "length (particles (Application_update (app\<lparr>particles := []\<rparr>))) \<le>
        length (particles (clear_and_spawn (app\<lparr>particles := []\<rparr>)))"
    by (simp add: Application_update_def Application_reset_def Let_def)
  also have "\<dots> = particles_to_create (state app)"
    by (simp add: e length_spawn)
  finally have 2: "length (particles (Application_update (app\<lparr>particles := ps\<rparr>))) \<le>
                     particles_to_create (state app)"
    by (simp only: 1)
  from 1 2 show ?thesis by auto
qed

theorem reset_clears_pool_witness:
  "reset_scene (state (sample_app [] (sample_state (1 / 10) True 0))) \<and>
   length (replicate 50 (Particle origin origin)) = 50 \<and>
   particles (Application_update
     ((sample_app [] (sample_state (1 / 10) True 0))
        \<lparr>particles := replicate 50 (Particle origin origin)\<rparr>)) = []"
proof -
  let ?app = "sample_app [] (sample_state (1 / 10) True 0)"
  have h: "reset_scene (state ?app)"
    by (simp add: sample_app_def sample_state_def Application_def)
  have n: "particles_to_create (state ?app) = 0"
    by (simp add: sample_app_def sample_state_def Application_def)
  from reset_clears_pool [OF h, of "replicate 50 (Particle origin origin)"] n
  have "particles (Application_update
          (?app\<lparr>particles := replicate 50 (Particle origin origin)\<rparr>)) = []"
    by blast
  with h show ?thesis by simp
qed

text \<open>
  Claim C10. \<^verbatim>\<open>reset(true)\<close> raises the reset flag and puts the viewer back to
  \<open>(0, 0, -5)\<close> with yaw 0; \<^verbatim>\<open>reset(false)\<close> lowers the flag and keeps position
  and yaw; neither touches the pool. A frame update ends with \<^verbatim>\<open>reset(false)\<close>:
  after it the flag is down, and position and yaw are as before.
\<close>

theorem Application_reset_rule:
  "reset_scene (state (Application_reset True app)) \<and>
   state_t.position (state (Application_reset True app)) = \<lparr>x = 0, y = 0, z = - 5\<rparr> \<and>
   rotation_y (state (Application_reset True app)) = 0 \<and>
   \<not> reset_scene (state (Application_reset False app)) \<and>
   state_t.position (state (Application_reset False app)) = state_t.position (state app) \<and>
   rotation_y (state (Application_reset False app)) = rotation_y (state app) \<and>
   particles (Application_reset v app) = particles app \<and>
   Application_update app = Application_reset False (Application_update app) \<and>
   \<not> reset_scene (state (Application_update app)) \<and>
   state_t.position (state (Application_update app)) = state_t.position (state app) \<and>
   rotation_y (state (Application_update app)) = rotation_y (state app)"
  by (simp add: Application_reset_def Application_update_def default_position_def Let_def
      clear_and_spawn_def spawn_keeps)

subsection \<open>New particles\<close>

lemma create_particle_Application:
  assumes "d_position = Uniform_real 0 1" and "d_direction = Uniform_real (- 1) 1"
  shows "create_particle d_position d_direction gen =
     (Particle \<lparr>x = gen !! 0, y = gen !! 1, z = gen !! 2\<rparr>
        \<lparr>x = 2 * gen !! 3 - 1, y = (2 * gen !! 4 - 1) * 2 + 2, z = 2 * gen !! 5 - 1\<rparr>,
      sdrop 6 gen)"
  by (simp add: assms create_particle_def eval_nat_numeral)

text \<open>
  Claim C6. With the distributions that the constructor of \<^verbatim>\<open>Application\<close> sets
  up, a new particle takes its position coordinates from the first three samples,
  each in \<open>[0, 1]\<close>, its direction \<open>x\<close> and \<open>z\<close> from the fourth and sixth sample
  mapped to \<open>[-1, 1]\<close>, and its direction \<open>y\<close> from the fifth sample mapped to
  \<open>[-1, 1]\<close> and then by \<open>t \<mapsto> 2 * t + 2\<close> into \<open>[0, 4]\<close>. The samples are those of
  the engine, taken to lie in the unit interval; that they are uniformly distributed is
  a property of the standard library and not of this code.
\<close>

theorem create_particle_ranges:
  assumes "\<forall>i<6. 0 \<le> gen !! i \<and> gen !! i \<le> 1"
  shows "let p = fst (create_particle (distribution_position (Application st g0))
                   (distribution_direction (Application st g0)) gen)
         in x (position p) = gen !! 0 \<and> y (position p) = gen !! 1 \<and>
            z (position p) = gen !! 2 \<and>
            x (direction p) = - 1 + 2 * gen !! 3 \<and>
            y (direction p) = 2 * (- 1 + 2 * gen !! 4) + 2 \<and>
            z (direction p) = - 1 + 2 * gen !! 5 \<and>
            0 \<le> x (position p) \<and> x (position p) \<le> 1 \<and>
            0 \<le> y (position p) \<and> y (position p) \<le> 1 \<and>
            0 \<le> z (position p) \<and> z (position p) \<le> 1 \<and>
            - 1 \<le> x (direction p) \<and> x (direction p) \<le> 1 \<and>
            0 \<le> y (direction p) \<and> y (direction p) \<le> 4 \<and>
            - 1 \<le> z (direction p) \<and> z (direction p) \<le> 1"
proof -
  have r: "0 \<le> gen !! i \<and> gen !! i \<le> 1" if "i < 6" for i
    using assms that by blast
  have "0 \<le> gen !! 0" "gen !! 0 \<le> 1" "0 \<le> gen !! 1" "gen !! 1 \<le> 1"
    "0 \<le> gen !! 2" "gen !! 2 \<le> 1" "0 \<le> gen !! 3" "gen !! 3 \<le> 1"
    "0 \<le> gen !! 4" "gen !! 4 \<le> 1" "0 \<le> gen !! 5" "gen !! 5 \<le> 1"
    using r[of 0] r[of 1] r[of 2] r[of 3] r[of 4] r[of 5] by simp_all
  moreover have "create_particle (distribution_position (Application st g0))
       (distribution_direction (Application st g0)) gen =
     (Particle \<lparr>x = gen !! 0, y = gen !! 1, z = gen !! 2\<rparr>
        \<lparr>x = 2 * gen !! 3 - 1, y = (2 * gen !! 4 - 1) * 2 + 2, z = 2 * gen !! 5 - 1\<rparr>,
      sdrop 6 gen)"
    by (rule create_particle_Application) (simp_all add: Application_def)
  ultimately show ?thesis
    by (simp add: Particle_def Let_def)
qed

theorem create_particle_ranges_witness:
  "fst (create_particle
     (distribution_position (Application (sample_state 0 False 0) (sconst 0)))
     (distribution_direction (Application (sample_state 0 False 0) (sconst 0)))
     ([0, 1 / 4, 1 / 2, 3 / 4, 1, 1 / 8] @- sconst 0)) =
   \<lparr>life = 10, position = \<lparr>x = 0, y = 1 / 4, z = 1 / 2\<rparr>,
    direction = \<lparr>x = 1 / 2, y = 4, z = - (3 / 4)\<rparr>\<rparr>"
proof -
  let ?gen = "[0, 1 / 4, 1 / 2, 3 / 4, 1, 1 / 8] @- sconst (0::real)"
  have s: "?gen !! 0 = 0" "?gen !! 1 = 1 / 4" "?gen !! 2 = 1 / 2" "?gen !! 3 = 3 / 4"
    "?gen !! 4 = 1" "?gen !! 5 = 1 / 8"
    by (simp_all add: eval_nat_numeral)
  have "i = 0 \<or> i = 1 \<or> i = 2 \<or> i = 3 \<or> i = 4 \<or> i = 5" if "i < 6" for i :: nat
    using that by arith
  then have h: "\<forall>i<6. 0 \<le> ?gen !! i \<and> ?gen !! i \<le> 1"
    using s by fastforce
  show ?thesis
    using create_particle_ranges [OF h, of "sample_state 0 False 0" "sconst 0"]
    by (simp add: Let_def Application_def create_particle_def Particle_def default_life_def)
qed

lemma drop_after_prefix:
  assumes "take (Suc (length ps)) xs = ps @ [p]"
  shows "drop (length ps) xs = p # drop (Suc (length ps)) xs"
proof -
  have "xs = (ps @ [p]) @ drop (Suc (length ps)) xs"
    using append_take_drop_id [of "Suc (length ps)" xs] assms by simp
  then have "drop (length ps) xs = drop (length ps) ((ps @ [p]) @ drop (Suc (length ps)) xs)"
    by simp
  then show ?thesis by simp
qed

text \<open>
  The same holds for every particle that the spawning loop appends, as long as all
  samples of the engine lie in the unit interval.
\<close>

lemma spawn_fresh_in_range:
  assumes "distribution_position app = Uniform_real 0 1"
    and "distribution_direction app = Uniform_real (- 1) 1"
    and "\<forall>i. 0 \<le> generator app !! i \<and> generator app !! i \<le> 1"
  shows "\<forall>p \<in> set (drop (length (particles app)) (particles (spawn n app))). fresh_in_range p"
  using assms
proof (induction n arbitrary: app)
  case 0
  show ?case by simp
next
  case (Suc n)
  let ?gen = "generator app"
  let ?p = "Particle \<lparr>x = ?gen !! 0, y = ?gen !! 1, z = ?gen !! 2\<rparr>
        \<lparr>x = 2 * ?gen !! 3 - 1, y = (2 * ?gen !! 4 - 1) * 2 + 2, z = 2 * ?gen !! 5 - 1\<rparr>"
  let ?app' = "app\<lparr>particles := particles app @ [?p], generator := sdrop 6 ?gen\<rparr>"
  let ?k = "length (particles app)"
  have c: "create_particle (distribution_position app) (distribution_direction app) ?gen =
             (?p, sdrop 6 ?gen)"
    using Suc.prems(1,2) by (rule create_particle_Application)
  then have sp: "spawn (Suc n) app = spawn n ?app'"
    by simp
  have g: "0 \<le> ?gen !! i \<and> ?gen !! i \<le> 1" for i
    using Suc.prems(3) by blast
  have fp: "fresh_in_range ?p"
    using g[of 0] g[of 1] g[of 2] g[of 3] g[of 4] g[of 5]
    by (simp add: fresh_in_range_def Particle_def default_life_def)
  have "\<forall>i. 0 \<le> generator ?app' !! i \<and> generator ?app' !! i \<le> 1"
    using g by (simp add: sdrop_snth)
  then have "\<forall>p \<in> set (drop (length (particles ?app')) (particles (spawn n ?app'))).
               fresh_in_range p"
    using Suc.prems(1,2) by (intro Suc.IH) simp_all
  then have rest: "\<forall>p \<in> set (drop (Suc ?k) (particles (spawn n ?app'))). fresh_in_range p"
    by simp
  have "take (length (particles ?app')) (particles (spawn n ?app')) = particles ?app'"
    by (rule take_spawn)
  then have "take (Suc ?k) (particles (spawn n ?app')) = particles app @ [?p]"
    by simp
  then have "drop ?k (particles (spawn n ?app')) = ?p # drop (Suc ?k) (particles (spawn n ?app'))"
    by (rule drop_after_prefix)
  with fp rest sp show ?case
    by simp
qed

subsection \<open>Colour\<close>

text \<open>
  Claim C9. The colour of a particle depends on its direction only. It is the linear
  interpolation between the cold colour \<open>(0, 0.73, 1, 1)\<close> and the hot colour
  \<open>(0.8, 0, 0, 1)\<close> with the factor \<open>direction.y / 2 + 1\<close> clamped to \<open>[0, 1]\<close>:
  cold for \<open>direction.y \<le> -2\<close>, hot for \<open>direction.y \<ge> 0\<close>, linear in between.
  As \<open>direction.y\<close> grows, red does not fall, green and blue do not rise and alpha
  stays; every channel stays between its cold and its hot value.
\<close>

theorem get_color_gradient:
  "(direction p = direction q \<longrightarrow> get_color p = get_color q) \<and>
   (y (direction p) \<le> - 2 \<longrightarrow> get_color p = cold) \<and>
   (0 \<le> y (direction p) \<longrightarrow> get_color p = hot) \<and>
   (- 2 \<le> y (direction p) \<and> y (direction p) \<le> 0 \<longrightarrow>
      get_color p =
        \<lparr>red = (y (direction p) / 2 + 1) * (8 / 10),
         green = (1 - (y (direction p) / 2 + 1)) * (73 / 100),
         blue = 1 - (y (direction p) / 2 + 1), alpha = 1\<rparr>) \<and>
   (y (direction p) \<le> y (direction q) \<longrightarrow>
      red (get_color p) \<le> red (get_color q) \<and>
      green (get_color q) \<le> green (get_color p) \<and>
      blue (get_color q) \<le> blue (get_color p) \<and>
      alpha (get_color p) = alpha (get_color q)) \<and>
   red cold \<le> red (get_color p) \<and> red (get_color p) \<le> red hot \<and>
   green hot \<le> green (get_color p) \<and> green (get_color p) \<le> green cold \<and>
   blue hot \<le> blue (get_color p) \<and> blue (get_color p) \<le> blue cold"
  by (auto simp: get_color_def color_grad_def clamp_factor_def cold_def hot_def Let_def
      algebra_simps)

theorem get_color_gradient_witness:
  "get_color (sample_particle (- 1)) =
     \<lparr>red = 4 / 10, green = 73 / 200, blue = 1 / 2, alpha = 1\<rparr> \<and>
   get_color (sample_particle (- 3)) = cold \<and>
   get_color (sample_particle 2) = hot \<and>
   red (get_color (sample_particle (- 1))) \<le> red (get_color (sample_particle 2)) \<and>
   green (get_color (sample_particle 2)) \<le> green (get_color (sample_particle (- 1)))"
  using get_color_gradient [of "sample_particle (- 1)" "sample_particle 2"]
    get_color_gradient [of "sample_particle (- 3)" "sample_particle (- 3)"]
    get_color_gradient [of "sample_particle 2" "sample_particle 2"]
  by (simp add: sample_particle_def cold_def hot_def)

end
